theory Spec2Isabelle
  imports Complex_Main
begin

section \<open>Tensors\<close>

text \<open>
  The program is \<^verbatim>\<open>src/implicitdl/implicit_model.py\<close>: three torch modules
  (\<^verbatim>\<open>ImplicitModel\<close>, \<^verbatim>\<open>ImplicitModelLoRA\<close>, \<^verbatim>\<open>ImplicitModelLoRA2\<close>), each with a
  constructor and a \<^verbatim>\<open>forward\<close> method; the two low-rank classes also carry the same
  \<^verbatim>\<open>project_onto_Linf_ball\<close>.

  A torch tensor is modelled by what the program reads of it: its shape, its elements in
  row-major order, its element type and device labels, and whether the object is an
  \<^verbatim>\<open>nn.Parameter\<close>. Elements are real numbers, as the specification's data model says
  (matrices over a real field): rounding of machine floats is not part of the model.
  The labels \<open>dtype\<close> and \<open>device\<close> are carried along (a result takes those of its first
  operand); torch's type promotion and its same-device checks are not modelled.
\<close>

datatype dtype = Float16 | BFloat16 | Float32 | Float64

datatype device = CPU | CUDA nat

record tensor =
  shape :: "nat list"
  data :: "real list"
  dtype :: dtype
  device :: device
  is_parameter :: bool

text \<open>
  Every raise of the program is a value. \<open>AssertionError\<close> carries the message of the
  \<^verbatim>\<open>assert\<close> statement when it has one; \<open>ConvergenceError\<close> is what the specification
  calls the failure of the external solver.
\<close>

datatype error =
    AssertionError "string option"
  | TypeError string
  | RuntimeError string
  | IndexError string
  | ConvergenceError

definition ebind :: "error + 'a \<Rightarrow> ('a \<Rightarrow> error + 'b) \<Rightarrow> error + 'b" where
  "ebind m k = (case m of Inl e \<Rightarrow> Inl e | Inr x \<Rightarrow> k x)"

subsection \<open>The torch operations the program calls\<close>

text \<open>
  Tensors of rank above two reach this program only as the input \<open>U\<close>, which is flattened
  at once. The operations below are the rank-two cases of the torch functions; where torch
  would batch over leading dimensions the model yields \<open>RuntimeError\<close>, a case no
  parameter built by the constructors can reach.
\<close>

definition nn_Parameter :: "tensor \<Rightarrow> tensor" where
  "nn_Parameter T = T\<lparr>is_parameter := True\<rparr>"

text \<open>
  \<^verbatim>\<open>torch.randn(*size)\<close>: a fresh tensor in the default element type on the CPU. The
  samples are a parameter of the model: \<open>g i\<close> is element \<open>i\<close> of the draw.
\<close>

definition torch_randn :: "(nat \<Rightarrow> real) \<Rightarrow> nat list \<Rightarrow> tensor" where
  "torch_randn g sz =
     \<lparr>shape = sz, data = map g [0..<prod_list sz], dtype = Float32, device = CPU,
      is_parameter = False\<rparr>"

definition torch_zeros :: "nat list \<Rightarrow> dtype \<Rightarrow> device \<Rightarrow> tensor" where
  "torch_zeros sz dt dev =
     \<lparr>shape = sz, data = replicate (prod_list sz) 0, dtype = dt, device = dev,
      is_parameter = False\<rparr>"

definition torch_eye :: "nat \<Rightarrow> nat \<Rightarrow> tensor" where
  "torch_eye r c =
     \<lparr>shape = [r, c], data = map (\<lambda>k. if k div c = k mod c then 1 else 0) [0..<r * c],
      dtype = Float32, device = CPU, is_parameter = False\<rparr>"

text \<open>Elementwise arithmetic with a Python number: \<^verbatim>\<open>v * A\<close>, \<^verbatim>\<open>A / c\<close>, \<^verbatim>\<open>A + c\<close>.\<close>

definition scalar_mul :: "real \<Rightarrow> tensor \<Rightarrow> tensor" where
  "scalar_mul v T = T\<lparr>data := map (\<lambda>a. v * a) (data T), is_parameter := False\<rparr>"

definition div_scalar :: "tensor \<Rightarrow> real \<Rightarrow> tensor" where
  "div_scalar T c = T\<lparr>data := map (\<lambda>a. a / c) (data T), is_parameter := False\<rparr>"

definition add_scalar :: "tensor \<Rightarrow> real \<Rightarrow> tensor" where
  "add_scalar T c = T\<lparr>data := map (\<lambda>a. a + c) (data T), is_parameter := False\<rparr>"

text \<open>
  Elementwise arithmetic of two tensors. Equal shapes combine element by element; two
  matrices broadcast a dimension of size one; any other pair of shapes is refused.
\<close>

definition binop :: "(real \<Rightarrow> real \<Rightarrow> real) \<Rightarrow> tensor \<Rightarrow> tensor \<Rightarrow> error + tensor" where
  "binop f S T =
     (if shape S = shape T then
        Inr (S\<lparr>data := map (\<lambda>(a, b). f a b) (zip (data S) (data T)), is_parameter := False\<rparr>)
      else
        (case (shape S, shape T) of
           ([rs, cs], [rt, ct]) \<Rightarrow>
             if (rs = rt \<or> rs = 1 \<or> rt = 1) \<and> (cs = ct \<or> cs = 1 \<or> ct = 1) then
               (let r = (if rs = 1 then rt else rs); c = (if cs = 1 then ct else cs)
                in Inr (S\<lparr>shape := [r, c],
                     data := map (\<lambda>k. f (data S ! ((if rs = 1 then 0 else k div c) * cs
                                                  + (if cs = 1 then 0 else k mod c)))
                                        (data T ! ((if rt = 1 then 0 else k div c) * ct
                                                  + (if ct = 1 then 0 else k mod c))))
                                 [0..<r * c],
                     is_parameter := False\<rparr>))
             else Inl (RuntimeError ''The size of tensor a must match the size of tensor b'')
         | _ \<Rightarrow> Inl (RuntimeError ''The size of tensor a must match the size of tensor b'')))"

text \<open>The matrix product \<^verbatim>\<open>S @ T\<close>.\<close>

definition matmul :: "tensor \<Rightarrow> tensor \<Rightarrow> error + tensor" where
  "matmul S T =
     (case (shape S, shape T) of
        ([r, k], [k', c]) \<Rightarrow>
          if k = k' then
            Inr (S\<lparr>shape := [r, c],
                 data := map (\<lambda>i. sum_list (map (\<lambda>j. data S ! ((i div c) * k + j)
                                                     * data T ! (j * c + i mod c)) [0..<k]))
                             [0..<r * c],
                 is_parameter := False\<rparr>)
          else Inl (RuntimeError ''mat1 and mat2 shapes cannot be multiplied'')
      | _ \<Rightarrow> Inl (RuntimeError ''mat1 and mat2 shapes cannot be multiplied''))"

text \<open>\<^verbatim>\<open>T.transpose(-1, -2)\<close>: element \<open>(j, i)\<close> of the result is element \<open>(i, j)\<close> of \<open>T\<close>.\<close>

definition tensor_transpose :: "tensor \<Rightarrow> error + tensor" where
  "tensor_transpose T =
     (case shape T of
        [r, c] \<Rightarrow>
          Inr (T\<lparr>shape := [c, r],
               data := map (\<lambda>k. data T ! ((k mod r) * c + k div r)) [0..<c * r],
               is_parameter := False\<rparr>)
      | [] \<Rightarrow> Inl (IndexError ''Dimension out of range'')
      | [_] \<Rightarrow> Inl (IndexError ''Dimension out of range'')
      | _ \<Rightarrow> Inl (RuntimeError ''rank above two''))"

text \<open>\<^verbatim>\<open>U.flatten(1, -1)\<close> of a rank-three tensor: the same elements, the last two
  dimensions merged.\<close>

definition flatten_1 :: "tensor \<Rightarrow> tensor" where
  "flatten_1 U =
     (case shape U of
        [a, b, c] \<Rightarrow> U\<lparr>shape := [a, b * c], is_parameter := False\<rparr>
      | _ \<Rightarrow> U)"

text \<open>\<^verbatim>\<open>F.pad(U, (0, 0, 0, 1), value=1)\<close> of a matrix: nothing is added to the last
  dimension, and one row of ones is added after the last row.\<close>

definition F_pad_0_0_0_1 :: "tensor \<Rightarrow> error + tensor" where
  "F_pad_0_0_0_1 U =
     (case shape U of
        [r, c] \<Rightarrow>
          Inr (U\<lparr>shape := [r + 1, c], data := data U @ replicate c 1, is_parameter := False\<rparr>)
      | _ \<Rightarrow> Inl (RuntimeError ''padding of a tensor that is not a matrix''))"

text \<open>\<^verbatim>\<open>torch.diag\<close>: a vector becomes the diagonal matrix, a matrix gives its diagonal.\<close>

definition torch_diag :: "tensor \<Rightarrow> error + tensor" where
  "torch_diag T =
     (case shape T of
        [n] \<Rightarrow>
          Inr (T\<lparr>shape := [n, n],
               data := map (\<lambda>k. if k div n = k mod n then data T ! (k div n) else 0) [0..<n * n],
               is_parameter := False\<rparr>)
      | [r, c] \<Rightarrow>
          Inr (T\<lparr>shape := [min r c], data := map (\<lambda>i. data T ! (i * c + i)) [0..<min r c],
               is_parameter := False\<rparr>)
      | _ \<Rightarrow> Inl (RuntimeError ''diag(): Supports 1D or 2D tensors''))"

text \<open>
  \<^verbatim>\<open>torch.linalg.matrix_norm(A, ord=float('inf'))\<close>: the largest sum of absolute values
  along a row. Row \<open>i\<close> of a matrix with \<open>c\<close> columns is \<open>take c (drop (i * c) xs)\<close>. A
  matrix with no row has no largest row sum, and torch raises.
\<close>

definition row_abs_sums :: "nat \<Rightarrow> nat \<Rightarrow> real list \<Rightarrow> real list" where
  "row_abs_sums r c xs = map (\<lambda>i. sum_list (map abs (take c (drop (i * c) xs)))) [0..<r]"

definition matrix_norm_inf :: "tensor \<Rightarrow> error + real" where
  "matrix_norm_inf A =
     (case shape A of
        [r, c] \<Rightarrow>
          if r = 0 then Inl (RuntimeError ''amax(): reduction over an empty dimension'')
          else Inr (Max (set (row_abs_sums r c (data A))))
      | _ \<Rightarrow> Inl (RuntimeError ''matrix_norm: not a matrix''))"

section \<open>The stability projection\<close>

text \<open>
  Lines 106-112 and, word for word, 185-191:
  \<^verbatim>\<open>
  def project_onto_Linf_ball(self, A, v=0.97):
      norm_inf_A = torch.linalg.matrix_norm(A, ord=float('inf'))
      if (norm_inf_A > v):
          A = v*A/norm_inf_A
      else:
          pass
      return A
  \<close>
  The rebinding of the local name \<open>A\<close> builds a new tensor; the argument is not written.
\<close>

definition project_onto_Linf_ball :: "tensor \<Rightarrow> real \<Rightarrow> error + tensor" where
  "project_onto_Linf_ball A v =
     ebind (matrix_norm_inf A) (\<lambda>norm_inf_A.
       Inr (if norm_inf_A > v then div_scalar (scalar_mul v A) norm_inf_A else A))"

section \<open>The three modules\<close>

text \<open>
  The three classes hold the same attributes \<open>n\<close>, \<open>p\<close>, \<open>q\<close>, \<open>B\<close>, \<open>C\<close>, \<open>D\<close>, \<open>f\<close>,
  \<open>bias\<close>; the records share them by extension. The solver \<open>f\<close> is
  \<^verbatim>\<open>implicit_function.ImplicitFunctionInf\<close> by default, a module that is not part of these
  sources: \<^verbatim>\<open>self.f.apply(A, B, X0, U)\<close> is a function the module holds, which returns
  the hidden state or raises.
\<close>

type_synonym solver = "tensor \<Rightarrow> tensor \<Rightarrow> tensor \<Rightarrow> tensor \<Rightarrow> error + tensor"

record module_fields =
  self_n :: nat
  self_p :: nat
  self_q :: nat
  self_B :: tensor
  self_C :: tensor
  self_D :: tensor
  self_f :: solver
  self_bias :: bool

record ImplicitModel = module_fields +
  self_A :: tensor

record ImplicitModelLoRA = module_fields +
  self_k :: nat
  self_L :: tensor
  self_R :: tensor

record ImplicitModelLoRA2 = ImplicitModelLoRA +
  self_diag :: bool
  self_Diag :: tensor

subsection \<open>Constructors\<close>

text \<open>
  Lines 29-44, 87-104 and 159-183. \<open>rng i\<close> is the sample stream of the \<open>i\<close>-th call of
  \<^verbatim>\<open>torch.randn\<close>, in the order of the source. The sizes are natural numbers (torch
  refuses a negative size); for \<open>n = 0\<close> the division of a non-empty draw by \<open>n\<close> is outside
  the model (torch yields infinities, HOL yields zero).
\<close>

definition ImplicitModel_init ::
  "nat \<Rightarrow> nat \<Rightarrow> nat \<Rightarrow> solver \<Rightarrow> bool \<Rightarrow> bool \<Rightarrow> (nat \<Rightarrow> nat \<Rightarrow> real) \<Rightarrow> ImplicitModel" where
  "ImplicitModel_init n p q f no_D bias rng =
     (let p = (if bias then p + 1 else p) in
      \<lparr>self_n = n, self_p = p, self_q = q,
       self_B = nn_Parameter (div_scalar (torch_randn (rng 1) [n, p]) (real n)),
       self_C = nn_Parameter (div_scalar (torch_randn (rng 2) [q, n]) (real n)),
       self_D = (if \<not> no_D then nn_Parameter (div_scalar (torch_randn (rng 3) [q, p]) (real n))
                 else torch_zeros [q, p] Float32 CPU),
       self_f = f, self_bias = bias,
       self_A = nn_Parameter (div_scalar (torch_randn (rng 0) [n, n]) (real n))\<rparr>)"

definition ImplicitModelLoRA_init ::
  "nat \<Rightarrow> nat \<Rightarrow> nat \<Rightarrow> nat \<Rightarrow> solver \<Rightarrow> bool \<Rightarrow> bool \<Rightarrow> (nat \<Rightarrow> nat \<Rightarrow> real)
     \<Rightarrow> ImplicitModelLoRA" where
  "ImplicitModelLoRA_init k n p q f no_D bias rng =
     (let p = (if bias then p + 1 else p) in
      \<lparr>self_n = n, self_p = p, self_q = q,
       self_B = nn_Parameter (div_scalar (torch_randn (rng 2) [n, p]) (real n)),
       self_C = nn_Parameter (div_scalar (torch_randn (rng 3) [q, n]) (real n)),
       self_D = (if \<not> no_D then nn_Parameter (div_scalar (torch_randn (rng 4) [q, p]) (real n))
                 else torch_zeros [q, p] Float32 CPU),
       self_f = f, self_bias = bias,
       self_k = k,
       self_L = nn_Parameter (div_scalar (torch_randn (rng 0) [n, k]) (real n)),
       self_R = nn_Parameter (div_scalar (torch_randn (rng 1) [n, k]) (real n))\<rparr>)"

definition ImplicitModelLoRA2_init ::
  "nat \<Rightarrow> nat \<Rightarrow> nat \<Rightarrow> nat \<Rightarrow> solver \<Rightarrow> bool \<Rightarrow> bool \<Rightarrow> bool \<Rightarrow> (nat \<Rightarrow> nat \<Rightarrow> real)
     \<Rightarrow> ImplicitModelLoRA2" where
  "ImplicitModelLoRA2_init k n p q f no_D bias diag rng =
     (let p = (if bias then p + 1 else p) in
      \<lparr>self_n = n, self_p = p, self_q = q,
       self_B = nn_Parameter (div_scalar (torch_randn (rng 3) [n, p]) (real n)),
       self_C = nn_Parameter (div_scalar (torch_randn (rng 4) [q, n]) (real n)),
       self_D = (if \<not> no_D then nn_Parameter (div_scalar (torch_randn (rng 5) [q, p]) (real n))
                 else torch_zeros [q, p] Float32 CPU),
       self_f = f, self_bias = bias,
       self_k = k,
       self_L = nn_Parameter (div_scalar (torch_randn (rng 0) [n, k]) (real n)),
       self_R = nn_Parameter (div_scalar (torch_randn (rng 1) [n, k]) (real n)),
       self_diag = diag,
       self_Diag = (if diag then nn_Parameter (div_scalar (torch_randn (rng 2) [n]) (real n))
                    else nn_Parameter (div_scalar (torch_randn (rng 2) [1, 1]) (real n)))\<rparr>)"

subsection \<open>The shared head and tail of forward\<close>

text \<open>
  Modelled from the spec: \<^verbatim>\<open>transpose\<close> is imported from \<^verbatim>\<open>implicitdl/utils.py\<close>, which is
  not among the sources. The specification (4.1, 4.3) has it turn a batch-major matrix into
  the feature-major one and back; it says nothing of a tensor that is not a matrix, where
  the model lets the call fail.
\<close>

definition transpose_utils :: "tensor \<Rightarrow> error + tensor" where
  "transpose_utils X =
     (if length (shape X) = 2 then tensor_transpose X
      else Inl (RuntimeError ''transpose of a tensor that is not a matrix''))"

text \<open>Python's \<^verbatim>\<open>str\<close> of a non-negative integer, as the f-string of line 52 prints it.\<close>

fun string_of_nat :: "nat \<Rightarrow> string" where
  "string_of_nat n =
     (if n < 10 then [char_of (48 + n)]
      else string_of_nat (n div 10) @ [char_of (48 + n mod 10)])"

definition size_message :: "nat \<Rightarrow> nat \<Rightarrow> string" where
  "size_message given expected =
     ''Given input size '' @ string_of_nat given
       @ '' does not match expected input size '' @ string_of_nat expected @ ''.''"

text \<open>
  Lines 47-51 (and 115-119, 194-198):
  \<^verbatim>\<open>
  if (len(U.size()) == 3):
      U = U.flatten(1, -1)
  U = transpose(U)
  if self.bias:
      U = F.pad(U, (0, 0, 0, 1), value=1)
  \<close>
\<close>

definition layout_U :: "bool \<Rightarrow> tensor \<Rightarrow> error + tensor" where
  "layout_U bias U =
     ebind (transpose_utils (if length (shape U) = 3 then flatten_1 U else U)) (\<lambda>U.
       if bias then F_pad_0_0_0_1 U else Inr U)"

text \<open>
  Lines 47-61 (and 115-129, 194-208), the same text in the three classes: the layout of
  \<open>U\<close>, then
  \<^verbatim>\<open>
  assert U.shape[0] == self.p, f'Given input size {U.shape[0]} does not match expected input size {self.p}.'
  m = U.shape[1]
  X_shape = torch.Size([self.n, m])
  if X0 is not None:
      X0 = transpose(X0)
      assert X0.shape == X_shape
  else:
      X0 = torch.zeros(X_shape, dtype=U.dtype, device=U.device)
  \<close>
  The result is the pair of \<open>U\<close> and \<open>X0\<close> the rest of forward works with.
\<close>

definition adapt_inputs ::
  "bool \<Rightarrow> nat \<Rightarrow> nat \<Rightarrow> tensor \<Rightarrow> tensor option \<Rightarrow> error + tensor \<times> tensor" where
  "adapt_inputs bias p n U X0 =
     ebind (layout_U bias U) (\<lambda>U.
       if shape U ! 0 \<noteq> p then Inl (AssertionError (Some (size_message (shape U ! 0) p)))
       else
         (let m = shape U ! 1; X_shape = [n, m] in
          (case X0 of
             Some X0 \<Rightarrow>
               ebind (transpose_utils X0) (\<lambda>X0.
                 if shape X0 = X_shape then Inr (U, X0) else Inl (AssertionError None))
           | None \<Rightarrow> Inr (U, torch_zeros X_shape (dtype U) (device U)))))"

text \<open>
  Lines 63-64 (and 134-135, 221-222), with the state matrix \<open>A\<close> of the class:
  \<^verbatim>\<open>
  X = self.f.apply(A, self.B, X0, U)
  return transpose(self.C @ X + self.D @ U)
  \<close>
\<close>

definition solve_and_output ::
  "solver \<Rightarrow> tensor \<Rightarrow> tensor \<Rightarrow> tensor \<Rightarrow> tensor \<Rightarrow> tensor \<Rightarrow> tensor \<Rightarrow> error + tensor" where
  "solve_and_output f A B C D X0 U =
     ebind (f A B X0 U) (\<lambda>X.
     ebind (matmul C X) (\<lambda>CX.
     ebind (matmul D U) (\<lambda>DU.
     ebind (binop (+) CX DU) (\<lambda>Y.
     transpose_utils Y))))"

subsection \<open>forward\<close>

text \<open>\<^verbatim>\<open>ImplicitModel.forward\<close>, lines 46-64: the state matrix is the parameter \<open>A\<close>.\<close>

definition ImplicitModel_forward :: "ImplicitModel \<Rightarrow> tensor \<Rightarrow> tensor option \<Rightarrow> error + tensor" where
  "ImplicitModel_forward self U X0 =
     ebind (adapt_inputs (self_bias self) (self_p self) (self_n self) U X0) (\<lambda>(U, X0).
       solve_and_output (self_f self) (self_A self) (self_B self) (self_C self) (self_D self) X0 U)"

text \<open>
  \<^verbatim>\<open>ImplicitModelLoRA.forward\<close>, lines 114-135:
  \<^verbatim>\<open>
  L_projected = self.project_onto_Linf_ball(self.L, 0.97)
  RT_projected = self.project_onto_Linf_ball(self.R.transpose(-1,-2), 0.97)
  X = self.f.apply(L_projected @ RT_projected, self.B, X0, U)
  \<close>
\<close>

definition ImplicitModelLoRA_forward ::
  "ImplicitModelLoRA \<Rightarrow> tensor \<Rightarrow> tensor option \<Rightarrow> error + tensor" where
  "ImplicitModelLoRA_forward self U X0 =
     ebind (adapt_inputs (self_bias self) (self_p self) (self_n self) U X0) (\<lambda>(U, X0).
     ebind (project_onto_Linf_ball (self_L self) 0.97) (\<lambda>L_projected.
     ebind (tensor_transpose (self_R self)) (\<lambda>RT.
     ebind (project_onto_Linf_ball RT 0.97) (\<lambda>RT_projected.
     ebind (matmul L_projected RT_projected) (\<lambda>A.
       solve_and_output (self_f self) A (self_B self) (self_C self) (self_D self) X0 U)))))"

text \<open>
  \<^verbatim>\<open>ImplicitModelLoRA2.forward\<close>, lines 193-222, is the one method that assigns to an
  attribute of the module, so it is modelled with the module as state: a computation
  returns its result or error together with the module as it then is.
\<close>

definition sbind ::
  "(error + 'a) \<times> 's \<Rightarrow> ('a \<Rightarrow> 's \<Rightarrow> (error + 'b) \<times> 's) \<Rightarrow> (error + 'b) \<times> 's" where
  "sbind m k = (case fst m of Inl e \<Rightarrow> (Inl e, snd m) | Inr x \<Rightarrow> k x (snd m))"

definition kappa :: real where
  "kappa = 0.95"

definition kapp_diag :: real where
  "kapp_diag = 0.45"

text \<open>
  \<^verbatim>\<open>torch.abs(self.Diag) > kappa\<close> used as the condition of an \<^verbatim>\<open>if\<close>: the elementwise
  comparison, then the truth value of the tensor, which torch gives only to a tensor of
  one element.
\<close>

definition abs_gt :: "tensor \<Rightarrow> real \<Rightarrow> bool list" where
  "abs_gt T c = map (\<lambda>a. \<bar>a\<bar> > c) (data T)"

definition tensor_bool :: "bool list \<Rightarrow> error + bool" where
  "tensor_bool bs =
     (case bs of
        [b] \<Rightarrow> Inr b
      | _ \<Rightarrow> Inl (RuntimeError ''Boolean value of Tensor is ambiguous''))"

text \<open>
  \<^verbatim>\<open>self.Diag = value\<close> goes through \<^verbatim>\<open>nn.Module.__setattr__\<close>, since the class derives
  from \<^verbatim>\<open>nn.Module\<close>. That method registers a value that is an \<^verbatim>\<open>nn.Parameter\<close>; for a
  value that is not one, assigned to a name the module holds as a parameter, it raises
  \<^verbatim>\<open>TypeError("cannot assign '...' as parameter 'Diag' (torch.nn.Parameter or None expected)")\<close>;
  any other name is plainly rebound. The result of tensor arithmetic is a plain tensor,
  never an \<^verbatim>\<open>nn.Parameter\<close>.
\<close>

definition cannot_assign :: error where
  "cannot_assign =
     TypeError ''cannot assign 'torch.FloatTensor' as parameter 'Diag' (torch.nn.Parameter or None expected)''"

definition Module_setattr_Diag ::
  "tensor \<Rightarrow> ImplicitModelLoRA2 \<Rightarrow> (error + unit) \<times> ImplicitModelLoRA2" where
  "Module_setattr_Diag v self =
     (if is_parameter v then (Inr (), self\<lparr>self_Diag := v\<rparr>)
      else if is_parameter (self_Diag self) then
        (Inl cannot_assign, self)
      else (Inr (), self\<lparr>self_Diag := v\<rparr>))"

text \<open>
  Lines 212-217:
  \<^verbatim>\<open>
  if self.diag:
      Diag_projected = self.project_onto_Linf_ball(torch.diag(self.Diag), kapp_diag)
  else:
      if torch.abs(self.Diag) > kappa:
          self.Diag = kappa * self.Diag/(self.Diag + 1e-10)
      Diag_projected = self.Diag * torch.eye(self.n, self.n)
  \<close>
\<close>

definition rescaled_Diag :: "tensor \<Rightarrow> error + tensor" where
  "rescaled_Diag Dg = binop (/) (scalar_mul kappa Dg) (add_scalar Dg (1 / 10 ^ 10))"

definition Diag_projected ::
  "ImplicitModelLoRA2 \<Rightarrow> (error + tensor) \<times> ImplicitModelLoRA2" where
  "Diag_projected self =
     (if self_diag self then
        (ebind (torch_diag (self_Diag self)) (\<lambda>Dg. project_onto_Linf_ball Dg kapp_diag), self)
      else
        sbind (tensor_bool (abs_gt (self_Diag self) kappa), self) (\<lambda>exceeds self.
        sbind (if exceeds then
                 sbind (rescaled_Diag (self_Diag self), self) Module_setattr_Diag
               else (Inr (), self)) (\<lambda>_ self.
          (binop (*) (self_Diag self) (torch_eye (self_n self) (self_n self)), self))))"

text \<open>
  Lines 210-219: the diagonal term and the two projected factors,
  \<^verbatim>\<open>
  L_projected = self.project_onto_Linf_ball(self.L, math.sqrt(kappa-kapp_diag))
  RT_projected = self.project_onto_Linf_ball(self.R.transpose(-1,-2), math.sqrt(kappa-kapp_diag))
  \<close>
\<close>

definition LoRA2_projections ::
  "ImplicitModelLoRA2 \<Rightarrow> (error + tensor \<times> tensor \<times> tensor) \<times> ImplicitModelLoRA2" where
  "LoRA2_projections self =
     sbind (Diag_projected self) (\<lambda>Diag_projected self.
       (ebind (project_onto_Linf_ball (self_L self) (sqrt (kappa - kapp_diag))) (\<lambda>L_projected.
        ebind (tensor_transpose (self_R self)) (\<lambda>RT.
        ebind (project_onto_Linf_ball RT (sqrt (kappa - kapp_diag))) (\<lambda>RT_projected.
          Inr (Diag_projected, L_projected, RT_projected)))), self))"

text \<open>
  Lines 221-222:
  \<^verbatim>\<open>
  X = self.f.apply(Diag_projected + L_projected @ RT_projected, self.B, X0, U)
  return transpose(self.C @ X + self.D @ U)
  \<close>
\<close>

definition ImplicitModelLoRA2_forward ::
  "ImplicitModelLoRA2 \<Rightarrow> tensor \<Rightarrow> tensor option \<Rightarrow> (error + tensor) \<times> ImplicitModelLoRA2" where
  "ImplicitModelLoRA2_forward self U X0 =
     sbind (adapt_inputs (self_bias self) (self_p self) (self_n self) U X0, self) (\<lambda>(U, X0) self.
     sbind (LoRA2_projections self) (\<lambda>(Diag_projected, L_projected, RT_projected) self.
       (ebind (matmul L_projected RT_projected) (\<lambda>LR.
        ebind (binop (+) Diag_projected LR) (\<lambda>A.
          solve_and_output (self_f self) A (self_B self) (self_C self) (self_D self) X0 U)),
        self)))"

section \<open>What the properties are stated with\<close>

text \<open>
  Modelled from the spec: the solver behind \<^verbatim>\<open>self.f.apply\<close> is not among the sources.
  The specification (4.3) gives its contract: from a state matrix of shape \<open>(n, n)\<close>, an
  input matrix of shape \<open>(n, p)\<close>, an initial state of shape \<open>(n, m)\<close> and an input of shape
  \<open>(p, m)\<close> it returns a hidden state of shape \<open>(n, m)\<close>. The contract is a hypothesis of
  the theorems about the shape of the output, never a fact about a particular solver.
\<close>

definition solver_contract :: "solver \<Rightarrow> nat \<Rightarrow> nat \<Rightarrow> nat \<Rightarrow> bool" where
  "solver_contract f n p m =
     (\<forall>A B X0 U. shape A = [n, n] \<and> shape B = [n, p] \<and> shape X0 = [n, m] \<and> shape U = [p, m]
        \<longrightarrow> (\<exists>X. f A B X0 U = Inr X \<and> shape X = [n, m]))"

text \<open>
  The batch size and the feature width of an input: a matrix \<open>(m, w)\<close>, or a rank-three
  tensor \<open>(m, t, w)\<close>, whose features are the \<open>t * w\<close> entries of a batch element.
\<close>

definition input_dims :: "tensor \<Rightarrow> (nat \<times> nat) option" where
  "input_dims U =
     (case shape U of
        [m, w] \<Rightarrow> Some (m, w)
      | [m, t, w] \<Rightarrow> Some (m, t * w)
      | _ \<Rightarrow> None)"



subsection \<open>Concrete inputs\<close>

text \<open>
  A solver to run the models with: one step \<open>X = A X0 + B U\<close> of the fixed-point iteration,
  without the activation. It meets the contract above.
\<close>

definition lin_solver :: solver where
  "lin_solver A B X0 U = ebind (matmul A X0) (\<lambda>AX. ebind (matmul B U) (\<lambda>BU. binop (+) AX BU))"

definition example_rng :: "nat \<Rightarrow> nat \<Rightarrow> real" where
  "example_rng i j = real (i + j + 1)"


definition example_U :: tensor where
  "example_U = \<lparr>shape = [2, 3], data = [1, 2, 3, 4, 5, 6], dtype = Float64, device = CUDA 0,
                 is_parameter = False\<rparr>"

definition example_U3 :: tensor where
  "example_U3 = \<lparr>shape = [1, 3, 2], data = [1, 2, 3, 4, 5, 6], dtype = Float64, device = CUDA 0,
                  is_parameter = False\<rparr>"


definition example_model :: ImplicitModel where
  "example_model = ImplicitModel_init 2 3 1 lin_solver False False example_rng"



definition example_lora2 :: ImplicitModelLoRA2 where
  "example_lora2 = ImplicitModelLoRA2_init 1 1 3 1 lin_solver False False False example_rng"

definition example_lora2_neg :: ImplicitModelLoRA2 where
  "example_lora2_neg =
     ImplicitModelLoRA2_init 1 1 3 1 lin_solver False False False (\<lambda>i j. - example_rng i j)"


section \<open>Properties\<close>

subsection \<open>The norm of a rescaled matrix\<close>

lemma row_abs_sums_scale:
  assumes "0 \<le> k"
  shows "row_abs_sums r c (map (\<lambda>a. k * a) xs) = map (\<lambda>s. k * s) (row_abs_sums r c xs)"
proof -
  have "sum_list (map abs (take c (drop j (map (\<lambda>a. k * a) xs)))) =
        k * sum_list (map abs (take c (drop j xs)))" for j
  proof -
    have "map abs (take c (drop j (map (\<lambda>a. k * a) xs))) = map (\<lambda>a. k * \<bar>a\<bar>) (take c (drop j xs))"
      using assms by (simp add: drop_map take_map abs_mult)
    then show ?thesis by (simp add: sum_list_const_mult)
  qed
  then show ?thesis by (simp add: row_abs_sums_def)
qed

lemma Max_scale:
  fixes rs :: "real list"
  assumes "0 \<le> k" "rs \<noteq> []"
  shows "Max (set (map (\<lambda>s. k * s) rs)) = k * Max (set rs)"
proof -
  have "mono (\<lambda>s. k * s)" using assms(1) by (simp add: mono_def mult_left_mono)
  then have "k * Max (set rs) = Max ((\<lambda>s. k * s) ` set rs)"
    using assms(2) by (intro mono_Max_commute) auto
  then show ?thesis by simp
qed

lemma row_abs_sums_nonempty: "0 < r \<Longrightarrow> row_abs_sums r c xs \<noteq> []"
  by (simp add: row_abs_sums_def)

lemma row_abs_sums_nonneg: "s \<in> set (row_abs_sums r c xs) \<Longrightarrow> 0 \<le> s"
  by (auto simp: row_abs_sums_def intro!: sum_list_nonneg)

lemma Max_row_abs_sums_nonneg: "0 < r \<Longrightarrow> 0 \<le> Max (set (row_abs_sums r c xs))"
  using row_abs_sums_nonneg[of _ r c xs] row_abs_sums_nonempty[of r c xs]
  by (metis List.finite_set Max_in set_empty)

lemma matrix_norm_inf_matrix:
  "shape A = [r, c] \<Longrightarrow> 0 < r \<Longrightarrow> matrix_norm_inf A = Inr (Max (set (row_abs_sums r c (data A))))"
  by (simp add: matrix_norm_inf_def)

lemma matrix_norm_inf_rescaled:
  assumes "shape A = [r, c]" "0 < r" "0 \<le> v" "0 < nrm"
  shows "matrix_norm_inf (div_scalar (scalar_mul v A) nrm)
         = Inr (v / nrm * Max (set (row_abs_sums r c (data A))))"
proof -
  have "map (\<lambda>a. a / nrm) (map (\<lambda>a. v * a) (data A)) = map (\<lambda>a. (v / nrm) * a) (data A)"
    by simp
  then have d: "data (div_scalar (scalar_mul v A) nrm) = map (\<lambda>a. (v / nrm) * a) (data A)"
    by (simp add: div_scalar_def scalar_mul_def)
  have s: "shape (div_scalar (scalar_mul v A) nrm) = [r, c]"
    using assms(1) by (simp add: div_scalar_def scalar_mul_def)
  have k: "0 \<le> v / nrm" using assms by simp
  have "matrix_norm_inf (div_scalar (scalar_mul v A) nrm)
        = Inr (Max (set (row_abs_sums r c (map (\<lambda>a. (v / nrm) * a) (data A)))))"
    unfolding matrix_norm_inf_matrix[OF s assms(2)] d ..
  also have "\<dots> = Inr (Max (set (map (\<lambda>s. (v / nrm) * s) (row_abs_sums r c (data A)))))"
    unfolding row_abs_sums_scale[OF k] ..
  also have "\<dots> = Inr (v / nrm * Max (set (row_abs_sums r c (data A))))"
    unfolding Max_scale[OF k row_abs_sums_nonempty[OF assms(2)]] ..
  finally show ?thesis .
qed

subsection \<open>The projection\<close>

lemma ebind_Inr [simp]: "ebind (Inr x) k = k x"
  by (simp add: ebind_def)

lemma ebind_Inl [simp]: "ebind (Inl e) k = Inl e"
  by (simp add: ebind_def)


lemma project_on_matrix:
  assumes "shape M = [r, c]" "0 < r"
  shows "project_onto_Linf_ball M v =
         Inr (if Max (set (row_abs_sums r c (data M))) > v
              then div_scalar (scalar_mul v M) (Max (set (row_abs_sums r c (data M)))) else M)"
  by (simp add: project_onto_Linf_ball_def matrix_norm_inf_matrix[OF assms])









subsection \<open>Shapes of the operations\<close>

lemma sbind_Inr [simp]: "sbind (Inr x, s) k = k x s"
  by (simp add: sbind_def)

lemma sbind_Inl [simp]: "sbind (Inl e, s) k = (Inl e, s)"
  by (simp add: sbind_def)

lemma matmul_shape:
  "shape S = [r, k] \<Longrightarrow> shape T = [k, c] \<Longrightarrow> \<exists>P. matmul S T = Inr P \<and> shape P = [r, c]"
  by (simp add: matmul_def)

lemma binop_same_shape:
  "shape S = shape T \<Longrightarrow> \<exists>P. binop f S T = Inr P \<and> shape P = shape S"
  by (simp add: binop_def)

lemma tensor_transpose_shape:
  "shape T = [r, c] \<Longrightarrow> \<exists>P. tensor_transpose T = Inr P \<and> shape P = [c, r]
     \<and> dtype P = dtype T \<and> device P = device T"
  by (simp add: tensor_transpose_def)

lemma transpose_utils_shape:
  "shape T = [r, c] \<Longrightarrow> \<exists>P. transpose_utils T = Inr P \<and> shape P = [c, r]
     \<and> dtype P = dtype T \<and> device P = device T"
  using tensor_transpose_shape[of T r c] by (simp add: transpose_utils_def)

lemma flatten_1_matrix: "shape U = [m, w] \<Longrightarrow> flatten_1 U = U"
  by (simp add: flatten_1_def)

lemma flatten_1_shape: "shape U = [m, t, w] \<Longrightarrow> shape (flatten_1 U) = [m, t * w]"
  by (simp add: flatten_1_def)

lemma flatten_1_labels: "dtype (flatten_1 U) = dtype U \<and> device (flatten_1 U) = device U"
  by (simp add: flatten_1_def split: list.splits)

lemma layout_U_flatten:
  "shape U = [m, t, w] \<Longrightarrow> layout_U bias U = layout_U bias (flatten_1 U)"
  by (simp add: layout_U_def flatten_1_shape flatten_1_matrix)

lemma layout_U_matrix:
  assumes "shape U = [m, w]"
  shows "\<exists>Ut. transpose_utils U = Inr Ut \<and> shape Ut = [w, m]
           \<and> dtype Ut = dtype U \<and> device Ut = device U
           \<and> layout_U bias U =
               Inr (if bias then Ut\<lparr>shape := [w + 1, m], data := data Ut @ replicate m 1,
                                      is_parameter := False\<rparr>
                    else Ut)"
proof -
  obtain Ut where t: "transpose_utils U = Inr Ut" and s: "shape Ut = [w, m]"
    and l: "dtype Ut = dtype U" "device Ut = device U"
    using transpose_utils_shape[OF assms] by blast
  have "layout_U bias U = (if bias then F_pad_0_0_0_1 Ut else Inr Ut)"
    using assms t by (simp add: layout_U_def)
  then show ?thesis using t s l by (simp add: F_pad_0_0_0_1_def)
qed

lemma layout_U_shape:
  assumes "shape U = [m, w]"
  shows "\<exists>U'. layout_U bias U = Inr U' \<and> shape U' = [if bias then w + 1 else w, m]
           \<and> dtype U' = dtype U \<and> device U' = device U"
  using layout_U_matrix[OF assms, of bias] by auto

subsection \<open>The head and the tail of forward\<close>

lemma adapt_inputs_of_layout:
  assumes "layout_U bias U = Inr U'"
  shows "adapt_inputs bias p n U X0 =
         (if shape U' ! 0 \<noteq> p then Inl (AssertionError (Some (size_message (shape U' ! 0) p)))
          else (case X0 of
                  Some X \<Rightarrow> ebind (transpose_utils X) (\<lambda>Xt.
                     if shape Xt = [n, shape U' ! 1] then Inr (U', Xt) else Inl (AssertionError None))
                | None \<Rightarrow> Inr (U', torch_zeros [n, shape U' ! 1] (dtype U') (device U'))))"
  using assms by (cases X0) (simp_all add: adapt_inputs_def Let_def)

lemma adapt_inputs_flatten:
  "shape U = [m, t, w] \<Longrightarrow> adapt_inputs bias p n U X0 = adapt_inputs bias p n (flatten_1 U) X0"
  by (simp add: adapt_inputs_def layout_U_flatten)

lemma adapt_inputs_accepts:
  assumes "shape U = [m, w]" and "(if bias then w + 1 else w) = p"
    and "case X0 of None \<Rightarrow> True | Some X \<Rightarrow> shape X = [m, n]"
  shows "\<exists>U' X0'. adapt_inputs bias p n U X0 = Inr (U', X0') \<and> layout_U bias U = Inr U'
           \<and> shape U' = [p, m] \<and> shape X0' = [n, m]
           \<and> (X0 = None \<longrightarrow> X0' = torch_zeros [n, m] (dtype U) (device U))"
proof -
  obtain U' where l: "layout_U bias U = Inr U'" and s: "shape U' = [p, m]"
    and lab: "dtype U' = dtype U" "device U' = device U"
    using layout_U_shape[OF assms(1), of bias] assms(2) by auto
  show ?thesis
  proof (cases X0)
    case None
    then show ?thesis using l s lab
      by (simp add: adapt_inputs_of_layout[OF l] torch_zeros_def)
  next
    case (Some X)
    then have "shape X = [m, n]" using assms(3) by simp
    then obtain Xt where "transpose_utils X = Inr Xt" "shape Xt = [n, m]"
      using transpose_utils_shape by blast
    then show ?thesis using Some l s
      by (simp add: adapt_inputs_of_layout[OF l])
  qed
qed

lemma adapt_inputs_width_mismatch:
  assumes "shape U = [m, w]" and "(if bias then w + 1 else w) \<noteq> p"
  shows "adapt_inputs bias p n U X0 =
         Inl (AssertionError (Some (size_message (if bias then w + 1 else w) p)))"
proof -
  obtain U' where l: "layout_U bias U = Inr U'" and s: "shape U' = [if bias then w + 1 else w, m]"
    using layout_U_shape[OF assms(1), of bias] by auto
  show ?thesis using assms(2) s by (simp add: adapt_inputs_of_layout[OF l])
qed

lemma adapt_inputs_X0_mismatch:
  assumes "shape U = [m, w]" and "(if bias then w + 1 else w) = p"
    and "shape X = [a, b]" and "[a, b] \<noteq> [m, n]"
  shows "adapt_inputs bias p n U (Some X) = Inl (AssertionError None)"
proof -
  obtain U' where l: "layout_U bias U = Inr U'" and s: "shape U' = [p, m]"
    using layout_U_shape[OF assms(1), of bias] assms(2) by auto
  obtain Xt where "transpose_utils X = Inr Xt" "shape Xt = [b, a]"
    using transpose_utils_shape[OF assms(3)] by blast
  then show ?thesis using assms(4) s by (auto simp add: adapt_inputs_of_layout[OF l])
qed

lemma solve_and_output_shape:
  assumes "shape C = [q, n]" and "shape D = [q, p]" and "shape U = [p, m]"
    and "f A B X0 U = Inr X" and "shape X = [n, m]"
  shows "\<exists>Y. solve_and_output f A B C D X0 U = Inr Y \<and> shape Y = [m, q]"
proof -
  obtain CX where cx: "matmul C X = Inr CX" "shape CX = [q, m]"
    using matmul_shape[OF assms(1,5)] by blast
  obtain DU where du: "matmul D U = Inr DU" "shape DU = [q, m]"
    using matmul_shape[OF assms(2,3)] by blast
  obtain Y where y: "binop (+) CX DU = Inr Y" "shape Y = [q, m]"
    using binop_same_shape[of CX DU "(+)"] cx(2) du(2) by auto
  obtain Yt where "transpose_utils Y = Inr Yt" "shape Yt = [m, q]"
    using transpose_utils_shape[OF y(2)] by blast
  then show ?thesis using assms(4) cx(1) du(1) y(1) by (simp add: solve_and_output_def)
qed


lemma ImplicitModel_forward_error:
  "adapt_inputs (self_bias self) (self_p self) (self_n self) U X0 = Inl e \<Longrightarrow>
   ImplicitModel_forward self U X0 = Inl e"
  by (simp add: ImplicitModel_forward_def)



subsection \<open>The low-rank classes\<close>

lemma project_shape:
  assumes "shape M = [r, c]" and "0 < r"
  shows "\<exists>P. project_onto_Linf_ball M v = Inr P \<and> shape P = [r, c]"
  using assms by (simp add: project_on_matrix[OF assms] div_scalar_def scalar_mul_def)

lemma project_norm_le:
  assumes "shape M = [r, c]" and "0 < r" and "0 < v"
  shows "\<exists>P nP. project_onto_Linf_ball M v = Inr P \<and> shape P = [r, c]
           \<and> matrix_norm_inf P = Inr nP \<and> nP \<le> v"
proof -
  define nM where "nM = Max (set (row_abs_sums r c (data M)))"
  show ?thesis
  proof (cases "v < nM")
    case True
    define P where "P = div_scalar (scalar_mul v M) nM"
    have pos: "0 < nM" using True assms(3) by simp
    have proj: "project_onto_Linf_ball M v = Inr P"
      using True by (simp add: project_on_matrix[OF assms(1,2)] nM_def[symmetric] P_def)
    have "matrix_norm_inf P = Inr (v / nM * nM)"
      unfolding P_def nM_def
      by (rule matrix_norm_inf_rescaled[OF assms(1,2)]) (use assms(3) pos in \<open>simp_all add: nM_def\<close>)
    then have "matrix_norm_inf P = Inr v" using pos by simp
    moreover have "shape P = [r, c]" using assms(1) by (simp add: P_def div_scalar_def scalar_mul_def)
    ultimately show ?thesis using proj by simp
  next
    case False
    then have "project_onto_Linf_ball M v = Inr M"
      by (simp add: project_on_matrix[OF assms(1,2)] nM_def[symmetric])
    then show ?thesis
      using False assms(1) matrix_norm_inf_matrix[OF assms(1,2)] by (simp add: nM_def)
  qed
qed

lemma ImplicitModelLoRA_forward_of_adapt:
  "adapt_inputs (self_bias self) (self_p self) (self_n self) U X0 = Inr (U', X0') \<Longrightarrow>
   ImplicitModelLoRA_forward self U X0 =
     ebind (project_onto_Linf_ball (self_L self) 0.97) (\<lambda>L_projected.
     ebind (tensor_transpose (self_R self)) (\<lambda>RT.
     ebind (project_onto_Linf_ball RT 0.97) (\<lambda>RT_projected.
     ebind (matmul L_projected RT_projected) (\<lambda>A.
       solve_and_output (self_f self) A (self_B self) (self_C self) (self_D self) X0' U'))))"
  by (simp add: ImplicitModelLoRA_forward_def)

lemma ImplicitModelLoRA_forward_error:
  "adapt_inputs (self_bias self) (self_p self) (self_n self) U X0 = Inl e \<Longrightarrow>
   ImplicitModelLoRA_forward self U X0 = Inl e"
  by (simp add: ImplicitModelLoRA_forward_def)

lemma ImplicitModelLoRA_forward_flatten:
  "shape U = [m, t, w] \<Longrightarrow>
   ImplicitModelLoRA_forward self U X0 = ImplicitModelLoRA_forward self (flatten_1 U) X0"
  by (simp add: ImplicitModelLoRA_forward_def adapt_inputs_flatten)

lemma ImplicitModelLoRA_forward_matrix:
  assumes "shape (self_L self) = [self_n self, self_k self]"
    and "shape (self_R self) = [self_n self, self_k self]"
    and "0 < self_n self" and "0 < self_k self"
    and "shape (self_B self) = [self_n self, self_p self]"
    and "shape (self_C self) = [self_q self, self_n self]"
    and "shape (self_D self) = [self_q self, self_p self]"
    and "solver_contract (self_f self) (self_n self) (self_p self) m"
    and "shape U = [m, w]" and "(if self_bias self then w + 1 else w) = self_p self"
    and "case X0 of None \<Rightarrow> True | Some X \<Rightarrow> shape X = [m, self_n self]"
  shows "\<exists>Y. ImplicitModelLoRA_forward self U X0 = Inr Y \<and> shape Y = [m, self_q self]"
proof -
  obtain U' X0' where a: "adapt_inputs (self_bias self) (self_p self) (self_n self) U X0 = Inr (U', X0')"
    and su: "shape U' = [self_p self, m]" and sx: "shape X0' = [self_n self, m]"
    using adapt_inputs_accepts[OF assms(9,10,11)] by blast
  obtain Lp where lp: "project_onto_Linf_ball (self_L self) 0.97 = Inr Lp"
    "shape Lp = [self_n self, self_k self]"
    using project_shape[OF assms(1,3)] by blast
  obtain RT where rt: "tensor_transpose (self_R self) = Inr RT" "shape RT = [self_k self, self_n self]"
    using tensor_transpose_shape[OF assms(2)] by blast
  obtain RTp where rtp: "project_onto_Linf_ball RT 0.97 = Inr RTp"
    "shape RTp = [self_k self, self_n self]"
    using project_shape[OF rt(2) assms(4)] by blast
  obtain A where am: "matmul Lp RTp = Inr A" "shape A = [self_n self, self_n self]"
    using matmul_shape[OF lp(2) rtp(2)] by blast
  obtain X where x: "self_f self A (self_B self) X0' U' = Inr X" "shape X = [self_n self, m]"
    using assms(8) am(2) assms(5) su sx unfolding solver_contract_def by blast
  have "ImplicitModelLoRA_forward self U X0 =
        solve_and_output (self_f self) A (self_B self) (self_C self) (self_D self) X0' U'"
    using lp(1) rt(1) rtp(1) am(1) by (simp add: ImplicitModelLoRA_forward_of_adapt[OF a])
  moreover have "\<exists>Y. solve_and_output (self_f self) A (self_B self) (self_C self) (self_D self) X0' U'
                   = Inr Y \<and> shape Y = [m, self_q self]"
    using assms(6,7) su x by (rule solve_and_output_shape)
  ultimately show ?thesis by simp
qed


lemma ImplicitModel_init_shapes:
  "self_n (ImplicitModel_init n p q f no_D bias rng) = n
   \<and> self_p (ImplicitModel_init n p q f no_D bias rng) = (if bias then p + 1 else p)
   \<and> self_q (ImplicitModel_init n p q f no_D bias rng) = q
   \<and> self_bias (ImplicitModel_init n p q f no_D bias rng) = bias
   \<and> self_f (ImplicitModel_init n p q f no_D bias rng) = f
   \<and> shape (self_A (ImplicitModel_init n p q f no_D bias rng)) = [n, n]
   \<and> shape (self_B (ImplicitModel_init n p q f no_D bias rng)) = [n, if bias then p + 1 else p]
   \<and> shape (self_C (ImplicitModel_init n p q f no_D bias rng)) = [q, n]
   \<and> shape (self_D (ImplicitModel_init n p q f no_D bias rng)) = [q, if bias then p + 1 else p]"
  by (simp add: ImplicitModel_init_def Let_def nn_Parameter_def div_scalar_def torch_randn_def
      torch_zeros_def)

lemma ImplicitModelLoRA_init_shapes:
  "self_n (ImplicitModelLoRA_init k n p q f no_D bias rng) = n
   \<and> self_k (ImplicitModelLoRA_init k n p q f no_D bias rng) = k
   \<and> self_p (ImplicitModelLoRA_init k n p q f no_D bias rng) = (if bias then p + 1 else p)
   \<and> self_q (ImplicitModelLoRA_init k n p q f no_D bias rng) = q
   \<and> self_bias (ImplicitModelLoRA_init k n p q f no_D bias rng) = bias
   \<and> self_f (ImplicitModelLoRA_init k n p q f no_D bias rng) = f
   \<and> shape (self_L (ImplicitModelLoRA_init k n p q f no_D bias rng)) = [n, k]
   \<and> shape (self_R (ImplicitModelLoRA_init k n p q f no_D bias rng)) = [n, k]
   \<and> shape (self_B (ImplicitModelLoRA_init k n p q f no_D bias rng)) = [n, if bias then p + 1 else p]
   \<and> shape (self_C (ImplicitModelLoRA_init k n p q f no_D bias rng)) = [q, n]
   \<and> shape (self_D (ImplicitModelLoRA_init k n p q f no_D bias rng)) = [q, if bias then p + 1 else p]"
  by (simp add: ImplicitModelLoRA_init_def Let_def nn_Parameter_def div_scalar_def torch_randn_def
      torch_zeros_def)

lemma ImplicitModelLoRA2_init_shapes:
  "self_n (ImplicitModelLoRA2_init k n p q f no_D bias dg rng) = n
   \<and> self_k (ImplicitModelLoRA2_init k n p q f no_D bias dg rng) = k
   \<and> self_p (ImplicitModelLoRA2_init k n p q f no_D bias dg rng) = (if bias then p + 1 else p)
   \<and> self_q (ImplicitModelLoRA2_init k n p q f no_D bias dg rng) = q
   \<and> self_bias (ImplicitModelLoRA2_init k n p q f no_D bias dg rng) = bias
   \<and> self_diag (ImplicitModelLoRA2_init k n p q f no_D bias dg rng) = dg
   \<and> self_f (ImplicitModelLoRA2_init k n p q f no_D bias dg rng) = f
   \<and> shape (self_L (ImplicitModelLoRA2_init k n p q f no_D bias dg rng)) = [n, k]
   \<and> shape (self_R (ImplicitModelLoRA2_init k n p q f no_D bias dg rng)) = [n, k]
   \<and> shape (self_Diag (ImplicitModelLoRA2_init k n p q f no_D bias dg rng)) = (if dg then [n] else [1, 1])
   \<and> is_parameter (self_Diag (ImplicitModelLoRA2_init k n p q f no_D bias dg rng))
   \<and> shape (self_B (ImplicitModelLoRA2_init k n p q f no_D bias dg rng)) = [n, if bias then p + 1 else p]
   \<and> shape (self_C (ImplicitModelLoRA2_init k n p q f no_D bias dg rng)) = [q, n]
   \<and> shape (self_D (ImplicitModelLoRA2_init k n p q f no_D bias dg rng)) = [q, if bias then p + 1 else p]"
  by (simp add: ImplicitModelLoRA2_init_def Let_def nn_Parameter_def div_scalar_def torch_randn_def
      torch_zeros_def)

lemma binop_not_parameter: "binop f S T = Inr P \<Longrightarrow> \<not> is_parameter P"
  by (auto simp: binop_def Let_def split: if_splits list.splits)

lemma rescaled_Diag_value:
  "rescaled_Diag Dg =
     Inr (Dg\<lparr>data := map (\<lambda>(a, b). a / b)
                     (zip (map (\<lambda>a. kappa * a) (data Dg)) (map (\<lambda>a. a + 1 / 10 ^ 10) (data Dg))),
              is_parameter := False\<rparr>)"
  by (simp add: rescaled_Diag_def binop_def scalar_mul_def add_scalar_def)

lemma rescaled_Diag_scalar:
  "data Dg = [d] \<Longrightarrow>
   rescaled_Diag Dg = Inr (Dg\<lparr>data := [kappa * d / (d + 1 / 10 ^ 10)], is_parameter := False\<rparr>)"
  by (simp add: rescaled_Diag_value)

lemma Module_setattr_Diag_plain_value:
  "\<not> is_parameter v \<Longrightarrow> is_parameter (self_Diag self) \<Longrightarrow>
   Module_setattr_Diag v self =
     (Inl cannot_assign, self)"
  by (simp add: Module_setattr_Diag_def)

lemma torch_diag_vector:
  "shape T = [n] \<Longrightarrow> \<exists>Dg. torch_diag T = Inr Dg \<and> shape Dg = [n, n]"
  by (simp add: torch_diag_def)

lemma Diag_projected_vector:
  assumes "self_diag self" and "shape (self_Diag self) = [n]" and "0 < n"
  shows "\<exists>Dp nD. Diag_projected self = (Inr Dp, self) \<and> shape Dp = [n, n]
           \<and> matrix_norm_inf Dp = Inr nD \<and> nD \<le> kapp_diag"
proof -
  obtain Dg where dg: "torch_diag (self_Diag self) = Inr Dg" "shape Dg = [n, n]"
    using torch_diag_vector[OF assms(2)] by blast
  have "0 < kapp_diag" by (simp add: kapp_diag_def)
  then obtain Dp nD where "project_onto_Linf_ball Dg kapp_diag = Inr Dp" "shape Dp = [n, n]"
    "matrix_norm_inf Dp = Inr nD" "nD \<le> kapp_diag"
    using project_norm_le[OF dg(2) assms(3)] by blast
  then show ?thesis using assms(1) dg(1) by (simp add: Diag_projected_def)
qed

lemma Diag_projected_scalar_raises:
  assumes "\<not> self_diag self" and "data (self_Diag self) = [d]" and "\<bar>d\<bar> > kappa"
    and "is_parameter (self_Diag self)"
  shows "Diag_projected self =
     (Inl cannot_assign, self)"
  using assms
  by (simp add: Diag_projected_def abs_gt_def tensor_bool_def rescaled_Diag_scalar
      Module_setattr_Diag_plain_value)

lemma Diag_projected_scalar_inside:
  assumes "\<not> self_diag self" and "data (self_Diag self) = [d]" and "\<not> \<bar>d\<bar> > kappa"
  shows "Diag_projected self =
     (binop (*) (self_Diag self) (torch_eye (self_n self) (self_n self)), self)"
  using assms by (simp add: Diag_projected_def abs_gt_def tensor_bool_def)

lemma scalar_times_eye:
  assumes "shape Dg = [1, 1]" and "data Dg = [d]"
  shows "binop (*) Dg (torch_eye n n) =
         Inr (Dg\<lparr>shape := [n, n],
                 data := map (\<lambda>k. d * (if k div n = k mod n then 1 else 0)) [0..<n * n],
                 is_parameter := False\<rparr>)"
proof (cases "n = 1")
  case True
  then show ?thesis using assms by (simp add: binop_def torch_eye_def)
next
  case False
  then show ?thesis using assms by (simp add: binop_def torch_eye_def)
qed

lemma snd_Diag_projected:
  assumes "is_parameter (self_Diag self)"
  shows "snd (Diag_projected self) = self"
proof (cases "self_diag self")
  case True
  then show ?thesis by (simp add: Diag_projected_def)
next
  case False
  show ?thesis
  proof (cases "tensor_bool (abs_gt (self_Diag self) kappa)")
    case (Inl e)
    then show ?thesis using False by (simp add: Diag_projected_def)
  next
    case (Inr exceeds)
    show ?thesis
    proof (cases exceeds)
      case True
      have "Module_setattr_Diag
              ((self_Diag self)\<lparr>data := map (\<lambda>(a, b). a / b)
                     (zip (map (\<lambda>a. kappa * a) (data (self_Diag self)))
                          (map (\<lambda>a. a + 1 / 10 ^ 10) (data (self_Diag self)))),
                 is_parameter := False\<rparr>) self
            = (Inl cannot_assign, self)"
        using assms by (simp add: Module_setattr_Diag_plain_value)
      then show ?thesis using False Inr True
        by (simp add: Diag_projected_def rescaled_Diag_value)
    next
      case False
      then show ?thesis using \<open>\<not> self_diag self\<close> Inr by (simp add: Diag_projected_def)
    qed
  qed
qed

lemma snd_LoRA2_projections:
  assumes "is_parameter (self_Diag self)"
  shows "snd (LoRA2_projections self) = self"
  using snd_Diag_projected[OF assms]
  by (cases "Diag_projected self") (auto simp: LoRA2_projections_def sbind_def split: sum.splits)

lemma ImplicitModelLoRA2_forward_of_adapt:
  "adapt_inputs (self_bias self) (self_p self) (self_n self) U X0 = Inr (U', X0') \<Longrightarrow>
   ImplicitModelLoRA2_forward self U X0 =
     sbind (LoRA2_projections self) (\<lambda>(Diag_projected, L_projected, RT_projected) self.
       (ebind (matmul L_projected RT_projected) (\<lambda>LR.
        ebind (binop (+) Diag_projected LR) (\<lambda>A.
          solve_and_output (self_f self) A (self_B self) (self_C self) (self_D self) X0' U')),
        self))"
  by (simp add: ImplicitModelLoRA2_forward_def)

lemma ImplicitModelLoRA2_forward_error:
  "adapt_inputs (self_bias self) (self_p self) (self_n self) U X0 = Inl e \<Longrightarrow>
   ImplicitModelLoRA2_forward self U X0 = (Inl e, self)"
  by (simp add: ImplicitModelLoRA2_forward_def)

lemma LoRA2_projections_error:
  "Diag_projected self = (Inl e, self') \<Longrightarrow> LoRA2_projections self = (Inl e, self')"
  by (simp add: LoRA2_projections_def)


lemma input_dims_cases:
  assumes "input_dims U = Some (m, w)"
  obtains "shape U = [m, w]" | t w' where "shape U = [m, t, w']" and "w = t * w'"
  using assms by (auto simp: input_dims_def split: list.splits)

lemma input_as_matrix:
  assumes "input_dims U = Some (m, w)"
  shows "\<exists>U2. shape U2 = [m, w] \<and> dtype U2 = dtype U \<and> device U2 = device U
           \<and> data U2 = data U
           \<and> (\<forall>bias. layout_U bias U = layout_U bias U2)
           \<and> (\<forall>bias p n X0. adapt_inputs bias p n U X0 = adapt_inputs bias p n U2 X0)"
  using assms
proof (cases rule: input_dims_cases)
  case 1
  then show ?thesis by blast
next
  case (2 t w')
  have "shape (flatten_1 U) = [m, w]" using 2 by (simp add: flatten_1_shape)
  moreover have "data (flatten_1 U) = data U" using 2 by (simp add: flatten_1_def)
  ultimately show ?thesis
    using flatten_1_labels[of U] layout_U_flatten[OF 2(1)] adapt_inputs_flatten[OF 2(1)]
    by (intro exI[of _ "flatten_1 U"]) simp
qed




text \<open>
  Claim C4, as the code has it, for \<^verbatim>\<open>ImplicitModel.forward\<close>. When the feature width of
  \<open>U\<close> (plus one with a bias) is not the input width of the module, forward fails with an
  assertion error whose message holds the width observed and the width expected. When
  the width is right and \<open>X0\<close> is a matrix of a shape other than \<open>(m, n)\<close>, forward fails with
  an assertion error. In both cases the error is the result of the call, whatever the
  solver is: it is not invoked, and nothing is tried again.
  The claim also gives the second error both sizes; the \<^verbatim>\<open>assert\<close> of line 59 has no
  message (the counterexample below).
\<close>

theorem forward_shape_mismatch:
  assumes "input_dims U = Some (m, w)"
  shows "((if self_bias self then w + 1 else w) \<noteq> self_p self \<longrightarrow>
            ImplicitModel_forward self U X0 =
              Inl (AssertionError (Some (size_message (if self_bias self then w + 1 else w) (self_p self)))))
       \<and> ((if self_bias self then w + 1 else w) = self_p self \<and> shape X = [a, b]
            \<and> [a, b] \<noteq> [m, self_n self] \<longrightarrow>
            ImplicitModel_forward self U (Some X) = Inl (AssertionError None))"
proof -
  obtain U2 where s: "shape U2 = [m, w]"
    and e: "\<forall>bias p n X0. adapt_inputs bias p n U X0 = adapt_inputs bias p n U2 X0"
    using input_as_matrix[OF assms] by blast
  have "ImplicitModel_forward self U X0 =
          Inl (AssertionError (Some (size_message (if self_bias self then w + 1 else w) (self_p self))))"
    if "(if self_bias self then w + 1 else w) \<noteq> self_p self"
    using adapt_inputs_width_mismatch[OF s that, of "self_n self" X0] e
    by (simp add: ImplicitModel_forward_error)
  moreover have "ImplicitModel_forward self U (Some X) = Inl (AssertionError None)"
    if "(if self_bias self then w + 1 else w) = self_p self" "shape X = [a, b]"
      "[a, b] \<noteq> [m, self_n self]"
    using adapt_inputs_X0_mismatch[OF s that] e
    by (simp add: ImplicitModel_forward_error)
  ultimately show ?thesis by blast
qed

theorem forward_shape_mismatch_witness:
  "input_dims example_U3 = Some (1, 6)
   \<and> (if self_bias example_model then 6 + 1 else 6) \<noteq> self_p example_model
   \<and> ImplicitModel_forward example_model example_U3 None =
       Inl (AssertionError (Some ''Given input size 6 does not match expected input size 3.''))
   \<and> input_dims example_U = Some (2, 3)
   \<and> (if self_bias example_model then 3 + 1 else 3) = self_p example_model
   \<and> shape example_U = [2, 3] \<and> [2, 3] \<noteq> [2, self_n example_model]
   \<and> ImplicitModel_forward example_model example_U (Some example_U) = Inl (AssertionError None)"
proof -
  have n: "self_n example_model = 2" and p: "self_p example_model = 3"
    and b: "\<not> self_bias example_model"
    using ImplicitModel_init_shapes[of 2 3 1 lin_solver False False example_rng]
    by (simp_all add: example_model_def)
  have d3: "input_dims example_U3 = Some (1, 6)" by (simp add: input_dims_def example_U3_def)
  have d2: "input_dims example_U = Some (2, 3)" by (simp add: input_dims_def example_U_def)
  have s: "shape example_U = [2, 3]" by (simp add: example_U_def)
  have m: "size_message 6 3 = ''Given input size 6 does not match expected input size 3.''"
    by code_simp
  from forward_shape_mismatch[OF d3, of example_model None] b p m
  have "ImplicitModel_forward example_model example_U3 None =
       Inl (AssertionError (Some ''Given input size 6 does not match expected input size 3.''))"
    by simp
  moreover from forward_shape_mismatch[OF d2, of example_model _ example_U 2 3] b p n s
  have "ImplicitModel_forward example_model example_U (Some example_U) = Inl (AssertionError None)"
    by simp
  ultimately show ?thesis using d3 d2 b p n s by simp
qed

text \<open>
  The counterexample to claim C4 as stated: a 2 x 3 initial state for a module with two
  hidden features and a batch of two. The error of the call carries no message, hence no
  size.
\<close>

theorem X0_mismatch_error_is_bare:
  "ImplicitModel_forward example_model example_U (Some example_U) = Inl (AssertionError None)"
  by code_simp




subsection \<open>The synthesised initial state\<close>




subsection \<open>The zero-D module\<close>










subsection \<open>The low-rank-plus-diagonal class\<close>




text \<open>
  Claim C8 says that forward of \<^verbatim>\<open>ImplicitModelLoRA2\<close> with \<^verbatim>\<open>diag=False\<close> overwrites the
  stored scalar \<open>Diag\<close> when its absolute value exceeds \<open>0.95\<close>. The code does not: \<open>Diag\<close> is
  an \<^verbatim>\<open>nn.Parameter\<close>, the value of line 216 is a plain tensor, and the assignment raises.
  What holds is that forward leaves a module whose \<open>Diag\<close> is a parameter exactly as it
  was, on every input.
\<close>

theorem LoRA2_forward_keeps_parameter_Diag:
  assumes "is_parameter (self_Diag self)"
  shows "snd (ImplicitModelLoRA2_forward self U X0) = self"
proof (cases "adapt_inputs (self_bias self) (self_p self) (self_n self) U X0")
  case (Inl e)
  then show ?thesis by (simp add: ImplicitModelLoRA2_forward_error)
next
  case (Inr UX)
  obtain r where p: "LoRA2_projections self = (r, self)"
    using snd_LoRA2_projections[OF assms] by (metis prod.collapse)
  show ?thesis
  proof (cases r)
    case (Inl e)
    then show ?thesis using Inr p by (cases UX) (simp add: ImplicitModelLoRA2_forward_of_adapt)
  next
    case (Inr parts)
    then show ?thesis
      using \<open>adapt_inputs (self_bias self) (self_p self) (self_n self) U X0 = Inr UX\<close> p
      by (cases UX; cases parts) (simp add: ImplicitModelLoRA2_forward_of_adapt)
  qed
qed

theorem LoRA2_forward_keeps_parameter_Diag_witness:
  "\<not> self_diag example_lora2 \<and> data (self_Diag example_lora2) = [3]
   \<and> \<bar>3 :: real\<bar> > 0.95 \<and> is_parameter (self_Diag example_lora2)
   \<and> ImplicitModelLoRA2_forward example_lora2 example_U None
       = (Inl cannot_assign, example_lora2)"
proof -
  note i = ImplicitModelLoRA2_init_shapes[of 1 1 3 1 lin_solver False False False example_rng]
  have h: "\<not> self_diag example_lora2" "is_parameter (self_Diag example_lora2)"
    "self_n example_lora2 = 1" "self_p example_lora2 = 3" "\<not> self_bias example_lora2"
    using i by (simp_all add: example_lora2_def)
  have d: "data (self_Diag example_lora2) = [3]" by code_simp
  have g: "\<bar>3 :: real\<bar> > kappa" by (simp add: kappa_def)
  have dp: "Diag_projected example_lora2 =
       (Inl cannot_assign, example_lora2)"
    using h(1) d g h(2) by (rule Diag_projected_scalar_raises)
  have s: "shape example_U = [2, 3]" by (simp add: example_U_def)
  obtain U' X0' where a: "adapt_inputs (self_bias example_lora2) (self_p example_lora2)
      (self_n example_lora2) example_U None = Inr (U', X0')"
    using adapt_inputs_accepts[OF s, where bias = "self_bias example_lora2"
        and p = "self_p example_lora2" and ?X0.0 = None and n = "self_n example_lora2"] h by auto
  have "fst (ImplicitModelLoRA2_forward example_lora2 example_U None)
        = Inl cannot_assign"
    by (simp add: ImplicitModelLoRA2_forward_of_adapt[OF a] LoRA2_projections_error[OF dp])
  moreover have "snd (ImplicitModelLoRA2_forward example_lora2 example_U None) = example_lora2"
    using h(2) by (rule LoRA2_forward_keeps_parameter_Diag)
  ultimately have "ImplicitModelLoRA2_forward example_lora2 example_U None
       = (Inl cannot_assign, example_lora2)"
    by (metis prod.collapse)
  then show ?thesis using h d by simp
qed

text \<open>
  Claim C10 says that line 216 writes \<open>0.95 d / (d + 1e-10)\<close> back to \<open>Diag\<close>. The right-hand
  side of line 216 is that value, and it is positive for every \<open>d\<close> beyond the threshold,
  of either sign; but for a \<open>Diag\<close> that is a parameter, as the constructor makes it, the
  assignment raises \<open>TypeError\<close>, nothing is written, and forward returns no output.
\<close>

theorem scalar_Diag_rescale_raises:
  assumes "\<not> self_diag self" and "data (self_Diag self) = [d]" and "\<bar>d\<bar> > 0.95"
    and "is_parameter (self_Diag self)"
    and "adapt_inputs (self_bias self) (self_p self) (self_n self) U X0 = Inr (U', X0')"
  shows "rescaled_Diag (self_Diag self)
           = Inr ((self_Diag self)\<lparr>data := [0.95 * d / (d + 1 / 10 ^ 10)], is_parameter := False\<rparr>)
       \<and> 0 < 0.95 * d / (d + 1 / 10 ^ 10)
       \<and> ImplicitModelLoRA2_forward self U X0
           = (Inl cannot_assign, self)"
proof -
  have g: "\<bar>d\<bar> > kappa" using assms(3) by (simp add: kappa_def)
  have dp: "Diag_projected self =
       (Inl cannot_assign, self)"
    using assms(1,2) g assms(4) by (rule Diag_projected_scalar_raises)
  have fw: "ImplicitModelLoRA2_forward self U X0
           = (Inl cannot_assign, self)"
    by (simp add: ImplicitModelLoRA2_forward_of_adapt[OF assms(5)] LoRA2_projections_error[OF dp])
  have "0 < d / (d + 1 / 10 ^ 10)"
  proof (cases "0 < d")
    case True
    then show ?thesis by (simp add: add_pos_pos)
  next
    case False
    then have "d < - 0.95" using assms(3) by simp
    then have "d < 0" "d + 1 / 10 ^ 10 < 0" by simp_all
    then show ?thesis by (rule divide_neg_neg)
  qed
  then have "0 < 0.95 * (d / (d + 1 / 10 ^ 10))"
    by (intro mult_pos_pos) simp_all
  then have pos: "0 < 0.95 * d / (d + 1 / 10 ^ 10)"
    by (simp only: times_divide_eq_right)
  have "rescaled_Diag (self_Diag self)
           = Inr ((self_Diag self)\<lparr>data := [0.95 * d / (d + 1 / 10 ^ 10)], is_parameter := False\<rparr>)"
    using rescaled_Diag_scalar[OF assms(2)] by (simp add: kappa_def)
  with pos fw show ?thesis by blast
qed

theorem scalar_Diag_rescale_raises_witness:
  "\<not> self_diag example_lora2_neg \<and> data (self_Diag example_lora2_neg) = [- 3]
   \<and> \<bar>- 3 :: real\<bar> > 0.95 \<and> is_parameter (self_Diag example_lora2_neg)
   \<and> (\<exists>U' X0'. adapt_inputs (self_bias example_lora2_neg) (self_p example_lora2_neg)
          (self_n example_lora2_neg) example_U None = Inr (U', X0'))
   \<and> rescaled_Diag (self_Diag example_lora2_neg)
       = Inr ((self_Diag example_lora2_neg)\<lparr>data := [0.95 * (- 3) / (- 3 + 1 / 10 ^ 10)],
                                               is_parameter := False\<rparr>)
   \<and> (0 :: real) < 0.95 * (- 3) / (- 3 + 1 / 10 ^ 10)
   \<and> ImplicitModelLoRA2_forward example_lora2_neg example_U None
       = (Inl cannot_assign, example_lora2_neg)"
proof -
  note i = ImplicitModelLoRA2_init_shapes[of 1 1 3 1 lin_solver False False False
      "\<lambda>i j. - example_rng i j"]
  have h: "\<not> self_diag example_lora2_neg" "is_parameter (self_Diag example_lora2_neg)"
    "self_n example_lora2_neg = 1" "self_p example_lora2_neg = 3" "\<not> self_bias example_lora2_neg"
    using i by (simp_all add: example_lora2_neg_def)
  have d: "data (self_Diag example_lora2_neg) = [- 3]" by code_simp
  have g: "\<bar>- 3 :: real\<bar> > 0.95" by simp
  have s: "shape example_U = [2, 3]" by (simp add: example_U_def)
  obtain U' X0' where a: "adapt_inputs (self_bias example_lora2_neg) (self_p example_lora2_neg)
      (self_n example_lora2_neg) example_U None = Inr (U', X0')"
    using adapt_inputs_accepts[OF s, where bias = "self_bias example_lora2_neg"
        and p = "self_p example_lora2_neg" and ?X0.0 = None and n = "self_n example_lora2_neg"] h
    by auto
  from scalar_Diag_rescale_raises[OF h(1) d g h(2) a] h d g a show ?thesis by blast
qed

lemma ImplicitModelLoRA2_forward_flatten:
  "shape U = [m, t, w] \<Longrightarrow>
   ImplicitModelLoRA2_forward self U X0 = ImplicitModelLoRA2_forward self (flatten_1 U) X0"
  by (simp add: ImplicitModelLoRA2_forward_def adapt_inputs_flatten)

lemma ImplicitModelLoRA2_forward_matrix:
  assumes "shape (self_L self) = [self_n self, self_k self]"
    and "shape (self_R self) = [self_n self, self_k self]"
    and "0 < self_n self" and "0 < self_k self"
    and "self_diag self \<and> shape (self_Diag self) = [self_n self]
         \<or> \<not> self_diag self \<and> shape (self_Diag self) = [1, 1] \<and> data (self_Diag self) = [d]
             \<and> \<bar>d\<bar> \<le> 0.95"
    and "shape (self_B self) = [self_n self, self_p self]"
    and "shape (self_C self) = [self_q self, self_n self]"
    and "shape (self_D self) = [self_q self, self_p self]"
    and "solver_contract (self_f self) (self_n self) (self_p self) m"
    and "shape U = [m, w]" and "(if self_bias self then w + 1 else w) = self_p self"
    and "case X0 of None \<Rightarrow> True | Some X \<Rightarrow> shape X = [m, self_n self]"
  shows "\<exists>Y. ImplicitModelLoRA2_forward self U X0 = (Inr Y, self) \<and> shape Y = [m, self_q self]"
proof -
  obtain U' X0' where a: "adapt_inputs (self_bias self) (self_p self) (self_n self) U X0 = Inr (U', X0')"
    and su: "shape U' = [self_p self, m]" and sx: "shape X0' = [self_n self, m]"
    using adapt_inputs_accepts[OF assms(10,11,12)] by blast
  have "\<exists>Dp. Diag_projected self = (Inr Dp, self) \<and> shape Dp = [self_n self, self_n self]"
    using assms(5)
  proof
    assume "self_diag self \<and> shape (self_Diag self) = [self_n self]"
    then show ?thesis using Diag_projected_vector[of self "self_n self"] assms(3) by blast
  next
    assume c: "\<not> self_diag self \<and> shape (self_Diag self) = [1, 1] \<and> data (self_Diag self) = [d]
             \<and> \<bar>d\<bar> \<le> 0.95"
    then have "\<not> \<bar>d\<bar> > kappa" by (simp add: kappa_def)
    then show ?thesis
      using c Diag_projected_scalar_inside[of self d] scalar_times_eye[of "self_Diag self" d "self_n self"]
      by simp
  qed
  then obtain Dp where dp: "Diag_projected self = (Inr Dp, self)" "shape Dp = [self_n self, self_n self]"
    by blast
  obtain Lp where lp: "project_onto_Linf_ball (self_L self) (sqrt (kappa - kapp_diag)) = Inr Lp"
    "shape Lp = [self_n self, self_k self]"
    using project_shape[OF assms(1,3)] by blast
  obtain RT where rt: "tensor_transpose (self_R self) = Inr RT" "shape RT = [self_k self, self_n self]"
    using tensor_transpose_shape[OF assms(2)] by blast
  obtain RTp where rtp: "project_onto_Linf_ball RT (sqrt (kappa - kapp_diag)) = Inr RTp"
    "shape RTp = [self_k self, self_n self]"
    using project_shape[OF rt(2) assms(4)] by blast
  obtain LR where lr: "matmul Lp RTp = Inr LR" "shape LR = [self_n self, self_n self]"
    using matmul_shape[OF lp(2) rtp(2)] by blast
  obtain A where am: "binop (+) Dp LR = Inr A" "shape A = [self_n self, self_n self]"
    using binop_same_shape[of Dp LR "(+)"] dp(2) lr(2) by auto
  obtain X where x: "self_f self A (self_B self) X0' U' = Inr X" "shape X = [self_n self, m]"
    using assms(9) am(2) assms(6) su sx unfolding solver_contract_def by blast
  have pr: "LoRA2_projections self = (Inr (Dp, Lp, RTp), self)"
    by (simp add: LoRA2_projections_def dp(1) lp(1) rt(1) rtp(1))
  have "ImplicitModelLoRA2_forward self U X0 =
        (solve_and_output (self_f self) A (self_B self) (self_C self) (self_D self) X0' U', self)"
    by (simp add: ImplicitModelLoRA2_forward_of_adapt[OF a] pr lr(1) am(1))
  moreover have "\<exists>Y. solve_and_output (self_f self) A (self_B self) (self_C self) (self_D self) X0' U'
                   = Inr Y \<and> shape Y = [m, self_q self]"
    using assms(7,8) su x by (rule solve_and_output_shape)
  ultimately show ?thesis by auto
qed

end
